theory Spec2Isabelle
  imports Complex_Main
begin

section \<open>Data model\<close>

text \<open>
  \<^verbatim>\<open>types.ts\<close>: the enum \<^verbatim>\<open>ConnectionState\<close>.
\<close>

datatype ConnectionState = DISCONNECTED | CONNECTING | CONNECTED | ERROR

text \<open>
  The arguments of a function call are a JSON object (\<^verbatim>\<open>fc.args as any\<close>). The values
  modelled are strings, booleans and \<^verbatim>\<open>null\<close>; a field that is absent reads as
  \<^verbatim>\<open>undefined\<close>, which is \<open>None\<close> of the map.
\<close>

datatype jsval = JString string | JBool bool | JNull

type_synonym args = "string \<rightharpoonup> jsval"

text \<open>The conversion a template literal applies to \<^verbatim>\<open>args.customerName\<close>.\<close>

fun js_toString :: "jsval option \<Rightarrow> string" where
  "js_toString None = ''undefined''"
| "js_toString (Some (JString s)) = s"
| "js_toString (Some (JBool True)) = ''true''"
| "js_toString (Some (JBool False)) = ''false''"
| "js_toString (Some JNull) = ''null''"

text \<open>
  The parts of \<^verbatim>\<open>LiveServerMessage\<close> that \<^verbatim>\<open>onmessage\<close> reads. Every field of the
  SDK's message types is optional, hence \<open>option\<close> everywhere.
\<close>

record FunctionCall =
  fc_id :: "string option"
  fc_name :: "string option"
  fc_args :: "args option"

record Blob =
  blob_data :: "string option"

record Part =
  inlineData :: "Blob option"

record Content =
  parts :: "Part list option"

record LiveServerContent =
  modelTurn :: "Content option"
  interrupted :: "bool option"

record LiveServerToolCall =
  functionCalls :: "FunctionCall list option"

record LiveServerMessage =
  serverContent :: "LiveServerContent option"
  toolCall :: "LiveServerToolCall option"

text \<open>
  A decoded \<^verbatim>\<open>AudioBuffer\<close> of the Web Audio API: a number of sample frames at a sample
  rate. Its \<^verbatim>\<open>duration\<close> attribute is the quotient of the two, in seconds. Times are
  exact reals here; the rounding of the doubles of the source is not modelled.
\<close>

record AudioBuffer =
  buf_sampleRate :: nat
  buf_length :: nat

definition duration :: "AudioBuffer \<Rightarrow> real" where
  "duration b = real (buf_length b) / real (buf_sampleRate b)"

text \<open>
  What the component does to the world outside its own state, in the order it does it.
  Audio contexts, gain nodes, buffer sources, streams and sessions are named by handles.
\<close>

datatype effect =
    Alert string
  | NewAudioContext nat nat
  | CloseAudioContext nat
  | CreateGain nat nat
  | GetUserMedia nat
  | LiveConnect nat
  | SourceStart nat AudioBuffer real
  | SourceStop nat
  | SendToolResponse "string option" "string option" string

datatype error = TypeError | DecodeError

text \<open>
  The state of the \<^verbatim>\<open>App\<close> component: its four \<^verbatim>\<open>useState\<close> cells and its six refs
  (App.tsx, lines 26 to 37), the next unused handle, and the effects so far.
  \<^verbatim>\<open>sourcesRef\<close> is a JavaScript \<^verbatim>\<open>Set\<close>, which iterates in insertion order: a list
  of handles without repetition.
\<close>

record App =
  connectionState :: ConnectionState
  isSpeaking :: bool
  lastLog :: string
  bookedVisits :: "args list"
  sessionRef :: "nat option"
  inputAudioContextRef :: "nat option"
  outputAudioContextRef :: "nat option"
  outputNodeRef :: "nat option"
  nextStartTimeRef :: real
  sourcesRef :: "nat list"
  nextHandle :: nat
  effects :: "effect list"

definition initial :: App where
  "initial = \<lparr> connectionState = DISCONNECTED, isSpeaking = False,
     lastLog = ''Ready to start.'', bookedVisits = [],
     sessionRef = None, inputAudioContextRef = None, outputAudioContextRef = None,
     outputNodeRef = None, nextStartTimeRef = 0, sourcesRef = [],
     nextHandle = 0, effects = [] \<rparr>"

text \<open>
  What the environment answers during \<^verbatim>\<open>handleConnect\<close>: the value of
  \<^verbatim>\<open>process.env.API_KEY\<close>, whether constructing the input \<^verbatim>\<open>AudioContext\<close> (line 83)
  or the output one (line 84) throws, and whether \<^verbatim>\<open>getUserMedia\<close> rejects (\<open>Some\<close> is
  the message of the error).
\<close>

record Env =
  API_KEY :: "string option"
  inputContextError :: "string option"
  outputContextError :: "string option"
  getUserMediaError :: "string option"


section \<open>Session lifecycle\<close>

text \<open>
  \<^verbatim>\<open>handleDisconnect\<close>, App.tsx lines 47 to 67. Closing an audio context returns a
  promise and does not throw, so the function has no failing branch.
\<close>

definition handleDisconnect :: "App \<Rightarrow> App" where
  "handleDisconnect s =
     (let s1 = (if sessionRef s \<noteq> None then s\<lparr>sessionRef := None\<rparr> else s);
          s2 = (case inputAudioContextRef s1 of
                  Some c \<Rightarrow> s1\<lparr>effects := effects s1 @ [CloseAudioContext c],
                              inputAudioContextRef := None\<rparr>
                | None \<Rightarrow> s1);
          s3 = (case outputAudioContextRef s2 of
                  Some c \<Rightarrow> s2\<lparr>effects := effects s2 @ [CloseAudioContext c],
                              outputAudioContextRef := None\<rparr>
                | None \<Rightarrow> s2)
      in s3\<lparr>connectionState := DISCONNECTED, isSpeaking := False,
            lastLog := ''Disconnected.''\<rparr>)"

text \<open>
  \<^verbatim>\<open>handleConnect\<close>, App.tsx lines 69 to 213, up to the call of \<^verbatim>\<open>ai.live.connect\<close>,
  whose callbacks are the functions of the next sections. A falsy key is an absent or an
  empty one. The \<^verbatim>\<open>catch\<close> block receives what a constructor of an audio context
  throws and what \<^verbatim>\<open>getUserMedia\<close> rejects with. The two contexts are constructed one
  after the other and the refs are assigned after both, so when the second constructor
  throws, the first context exists and no ref holds it. The \<^verbatim>\<open>await\<close> of
  \<^verbatim>\<open>getUserMedia\<close> (line 93) is taken in one step with its answer.
\<close>

definition falsy_key :: "string option \<Rightarrow> bool" where
  "falsy_key k = (k = None \<or> k = Some [])"

definition connectFailed :: "string \<Rightarrow> App \<Rightarrow> App" where
  "connectFailed msg s =
     s\<lparr>connectionState := ERROR, lastLog := ''Failed to connect: '' @ msg\<rparr>"

definition handleConnect :: "Env \<Rightarrow> App \<Rightarrow> App" where
  "handleConnect env s =
     (if falsy_key (API_KEY env)
      then s\<lparr>effects := effects s @ [Alert ''API Key is missing!'']\<rparr>
      else
        let s1 = s\<lparr>connectionState := CONNECTING, lastLog := ''Connecting to Gemini...''\<rparr>
        in case inputContextError env of
             Some msg \<Rightarrow> connectFailed msg s1
           | None \<Rightarrow>
              let h = nextHandle s1;
                  s1a = s1\<lparr>effects := effects s1 @ [NewAudioContext h 16000],
                           nextHandle := h + 1\<rparr>
              in (case outputContextError env of
                    Some msg \<Rightarrow> connectFailed msg s1a
                  | None \<Rightarrow>
                     let s2 = s1a\<lparr>effects := effects s1a @ [NewAudioContext (h + 1) 24000],
                                 inputAudioContextRef := Some h,
                                 outputAudioContextRef := Some (h + 1),
                                 nextHandle := h + 2\<rparr>;
                         s3 = s2\<lparr>effects := effects s2 @ [CreateGain (h + 2) (h + 1)],
                                 outputNodeRef := Some (h + 2),
                                 nextHandle := h + 3\<rparr>
                     in (case getUserMediaError env of
                           Some msg \<Rightarrow> connectFailed msg s3
                         | None \<Rightarrow>
                             s3\<lparr>effects := effects s3 @
                                  [GetUserMedia (h + 3), LiveConnect (h + 4)],
                                sessionRef := Some (h + 4),
                                nextHandle := h + 5\<rparr>)))"

text \<open>\<^verbatim>\<open>toggleConnection\<close>, App.tsx lines 215 to 221: the only caller of \<^verbatim>\<open>handleConnect\<close>.\<close>

definition toggleConnection :: "Env \<Rightarrow> App \<Rightarrow> App" where
  "toggleConnection env s =
     (if connectionState s = CONNECTED \<or> connectionState s = CONNECTING
      then handleDisconnect s
      else handleConnect env s)"

text \<open>The callbacks \<^verbatim>\<open>onopen\<close> (its state updates), \<^verbatim>\<open>onclose\<close> and \<^verbatim>\<open>onerror\<close>.\<close>

definition onopen :: "App \<Rightarrow> App" where
  "onopen s = s\<lparr>connectionState := CONNECTED, lastLog := ''Connected! Say hello.''\<rparr>"

definition onclose :: "App \<Rightarrow> App" where
  "onclose s = handleDisconnect s"

definition onerror :: "App \<Rightarrow> App" where
  "onerror s = handleDisconnect (s\<lparr>lastLog := ''Error occurred. Please restart.''\<rparr>)"


section \<open>The message handler\<close>

text \<open>
  \<^verbatim>\<open>message.serverContent?.modelTurn?.parts[0]?.inlineData?.data\<close> (line 123). The
  optional chain stops at an absent \<^verbatim>\<open>serverContent\<close> or \<^verbatim>\<open>modelTurn\<close>; indexing an
  absent \<^verbatim>\<open>parts\<close> throws.
\<close>

definition base64Audio :: "LiveServerMessage \<Rightarrow> error + string option" where
  "base64Audio m =
     (case serverContent m of
        None \<Rightarrow> Inr None
      | Some sc \<Rightarrow>
         (case modelTurn sc of
            None \<Rightarrow> Inr None
          | Some mt \<Rightarrow>
             (case parts mt of
                None \<Rightarrow> Inl TypeError
              | Some [] \<Rightarrow> Inr None
              | Some (p # _) \<Rightarrow>
                 (case inlineData p of
                    None \<Rightarrow> Inr None
                  | Some b \<Rightarrow> Inr (blob_data b)))))"

text \<open>A string is truthy when it is present and not empty.\<close>

definition truthy :: "string option \<Rightarrow> bool" where
  "truthy a = (a \<noteq> None \<and> a \<noteq> Some [])"

text \<open>\<^verbatim>\<open>message.serverContent?.interrupted\<close> as a condition (line 157).\<close>

definition isInterrupted :: "LiveServerMessage \<Rightarrow> bool" where
  "isInterrupted m =
     (case serverContent m of None \<Rightarrow> False | Some sc \<Rightarrow> interrupted sc = Some True)"

text \<open>
  Lines 139 to 152, the part of the audio branch after the \<^verbatim>\<open>await\<close>: a new buffer
  source is started at the cursor, the cursor advances by the duration of the buffer, and
  the source joins the active set.
\<close>

definition scheduleBuffer :: "AudioBuffer \<Rightarrow> App \<Rightarrow> App" where
  "scheduleBuffer b s =
     (let src = nextHandle s
      in s\<lparr>nextHandle := src + 1,
           effects := effects s @ [SourceStart src b (nextStartTimeRef s)],
           nextStartTimeRef := nextStartTimeRef s + duration b,
           sourcesRef := sourcesRef s @ [src]\<rparr>)"

text \<open>The listener of \<^verbatim>\<open>ended\<close> that line 143 attaches to the source.\<close>

definition onended :: "nat \<Rightarrow> App \<Rightarrow> App" where
  "onended src s =
     (let s1 = s\<lparr>sourcesRef := removeAll src (sourcesRef s)\<rparr>
      in if sourcesRef s1 = [] then s1\<lparr>isSpeaking := False\<rparr> else s1)"

text \<open>Lines 158 to 164, the body of the interruption branch.\<close>

definition handleInterruption :: "App \<Rightarrow> App" where
  "handleInterruption s =
     s\<lparr>lastLog := ''User interrupted model.'',
       isSpeaking := False,
       effects := effects s @ map SourceStop (sourcesRef s),
       sourcesRef := [],
       nextStartTimeRef := 0\<rparr>"

text \<open>
  Lines 169 to 186, the loop over the function calls. Reading \<^verbatim>\<open>args.customerName\<close> of
  absent arguments throws, which ends the loop and the handler. The response is sent from
  a continuation of the session promise, which has resolved when messages arrive.
\<close>

fun handleToolCalls :: "FunctionCall list \<Rightarrow> App \<Rightarrow> error option \<times> App" where
  "handleToolCalls [] s = (None, s)"
| "handleToolCalls (fc # fcs) s =
     (if fc_name fc = Some ''book_site_visit''
      then (case fc_args fc of
              None \<Rightarrow> (Some TypeError, s)
            | Some a \<Rightarrow>
                handleToolCalls fcs
                  (s\<lparr>lastLog := ''Booking visit for '' @ js_toString (a ''customerName'') @ ''...'',
                     bookedVisits := bookedVisits s @ [a],
                     effects := effects s @
                       [SendToolResponse (fc_id fc) (fc_name fc)
                          ''Visit successfully scheduled.'']\<rparr>))
      else handleToolCalls fcs s)"

text \<open>Lines 156 to 187: what the handler does after the audio branch.\<close>

definition afterAudio :: "LiveServerMessage \<Rightarrow> App \<Rightarrow> error option \<times> App" where
  "afterAudio m s =
     (let s1 = (if isInterrupted m then handleInterruption s else s)
      in case toolCall m of
           None \<Rightarrow> (None, s1)
         | Some tc \<Rightarrow>
            (case functionCalls tc of
               None \<Rightarrow> (Some TypeError, s1)
             | Some fcs \<Rightarrow> handleToolCalls fcs s1))"

text \<open>
  \<^verbatim>\<open>onmessage\<close> is an \<^verbatim>\<open>async\<close> function with one \<^verbatim>\<open>await\<close>, on the decoding of the
  chunk (line 132). \<open>onmessage_begin\<close> runs it up to there: it either finishes (with the
  error it threw, if any) or is suspended on a decoding that will yield a buffer.
  \<open>onmessage_resume\<close> is the continuation. The decoder \<^verbatim>\<open>decodeAudioData(decode(...))\<close>
  is a parameter: \<open>None\<close> is a chunk that fails to decode. \<open>now\<close> is
  \<^verbatim>\<open>ctx.currentTime\<close> when the handler starts.
\<close>

datatype progress = Finished "error option" | Awaiting AudioBuffer

definition onmessage_begin ::
  "(string \<Rightarrow> AudioBuffer option) \<Rightarrow> real \<Rightarrow> LiveServerMessage \<Rightarrow> App \<Rightarrow> progress \<times> App" where
  "onmessage_begin dec now m s =
     (case base64Audio m of
        Inl e \<Rightarrow> (Finished (Some e), s)
      | Inr a \<Rightarrow>
         if truthy a then
           let s1 = s\<lparr>isSpeaking := True\<rparr>
           in if outputAudioContextRef s1 \<noteq> None \<and> outputNodeRef s1 \<noteq> None then
                let s2 = s1\<lparr>nextStartTimeRef := max (nextStartTimeRef s1) now\<rparr>
                in case dec (the a) of
                     None \<Rightarrow> (Finished (Some DecodeError), s2)
                   | Some b \<Rightarrow> (Awaiting b, s2)
              else (case afterAudio m s1 of (e, s') \<Rightarrow> (Finished e, s'))
         else (case afterAudio m s of (e, s') \<Rightarrow> (Finished e, s')))"

definition onmessage_resume :: "LiveServerMessage \<Rightarrow> AudioBuffer \<Rightarrow> App \<Rightarrow> error option \<times> App" where
  "onmessage_resume m b s = afterAudio m (scheduleBuffer b s)"

text \<open>A message handled to its end before anything else happens.\<close>

definition onmessage ::
  "(string \<Rightarrow> AudioBuffer option) \<Rightarrow> real \<Rightarrow> LiveServerMessage \<Rightarrow> App \<Rightarrow> error option \<times> App" where
  "onmessage dec now m s =
     (case onmessage_begin dec now m s of
        (Finished e, s') \<Rightarrow> (e, s')
      | (Awaiting b, s') \<Rightarrow> onmessage_resume m b s')"


section \<open>Events interleaved with decoding\<close>

text \<open>
  While a handler waits for its chunk to decode, the channel may deliver further messages.
  An execution is a list of events: the arrival of a message at a time of the audio
  clock, or the completion of the decoding that the suspended handler at a position of
  the waiting list is waiting for. The handlers share the state of the component.
\<close>

datatype event = Message real LiveServerMessage | DecodeDone nat

type_synonym waiting = "(LiveServerMessage \<times> AudioBuffer) list"

fun deliver ::
  "(string \<Rightarrow> AudioBuffer option) \<Rightarrow> event \<Rightarrow> App \<times> waiting \<Rightarrow> App \<times> waiting" where
  "deliver dec (Message now m) (s, ws) =
     (case onmessage_begin dec now m s of
        (Finished e, s') \<Rightarrow> (s', ws)
      | (Awaiting b, s') \<Rightarrow> (s', ws @ [(m, b)]))"
| "deliver dec (DecodeDone i) (s, ws) =
     (if i < length ws
      then (snd (onmessage_resume (fst (ws ! i)) (snd (ws ! i)) s), take i ws @ drop (Suc i) ws)
      else (s, ws))"

fun run ::
  "(string \<Rightarrow> AudioBuffer option) \<Rightarrow> event list \<Rightarrow> App \<times> waiting \<Rightarrow> App \<times> waiting" where
  "run dec [] st = st"
| "run dec (ev # evs) st = run dec evs (deliver dec ev st)"

text \<open>The buffer a message will be suspended on, when the output context and node exist.\<close>

definition decoded :: "(string \<Rightarrow> AudioBuffer option) \<Rightarrow> LiveServerMessage \<Rightarrow> AudioBuffer option" where
  "decoded dec m =
     (case base64Audio m of
        Inl e \<Rightarrow> None
      | Inr a \<Rightarrow> if truthy a then dec (the a) else None)"

fun arrivals :: "(string \<Rightarrow> AudioBuffer option) \<Rightarrow> event list \<Rightarrow> AudioBuffer list" where
  "arrivals dec [] = []"
| "arrivals dec (Message now m # evs) =
     (case decoded dec m of None \<Rightarrow> arrivals dec evs | Some b \<Rightarrow> b # arrivals dec evs)"
| "arrivals dec (DecodeDone i # evs) = arrivals dec evs"

fun inArrivalOrder :: "event \<Rightarrow> bool" where
  "inArrivalOrder (Message now m) = True"
| "inArrivalOrder (DecodeDone i) = (i = 0)"


section \<open>Observations and sample inputs\<close>

text \<open>The buffers started, with their start times, in the order of the calls of \<^verbatim>\<open>start\<close>.\<close>

fun scheduled :: "effect list \<Rightarrow> (AudioBuffer \<times> real) list" where
  "scheduled [] = []"
| "scheduled (SourceStart src b t # es) = (b, t) # scheduled es"
| "scheduled (e # es) = scheduled es"

text \<open>The tool responses sent: the id and the result of each.\<close>

fun toolResponses :: "effect list \<Rightarrow> (string option \<times> string) list" where
  "toolResponses [] = []"
| "toolResponses (SendToolResponse i n r # es) = (i, r) # toolResponses es"
| "toolResponses (e # es) = toolResponses es"

text \<open>Whether an effect creates an audio context, a capture stream or a channel.\<close>

fun acquires :: "effect \<Rightarrow> bool" where
  "acquires (NewAudioContext h r) = True"
| "acquires (GetUserMedia h) = True"
| "acquires (LiveConnect h) = True"
| "acquires e = False"

text \<open>The three kinds of message of the spec's event stream, as the SDK delivers them.\<close>

definition audioMessage :: "string \<Rightarrow> LiveServerMessage" where
  "audioMessage d =
     \<lparr> serverContent = Some \<lparr> modelTurn =
           Some \<lparr> parts = Some [\<lparr> inlineData = Some \<lparr> blob_data = Some d \<rparr> \<rparr>] \<rparr>,
         interrupted = None \<rparr>,
       toolCall = None \<rparr>"

definition interruptedMessage :: LiveServerMessage where
  "interruptedMessage =
     \<lparr> serverContent = Some \<lparr> modelTurn = None, interrupted = Some True \<rparr>,
       toolCall = None \<rparr>"

definition toolCallMessage :: "FunctionCall list \<Rightarrow> LiveServerMessage" where
  "toolCallMessage fcs =
     \<lparr> serverContent = None, toolCall = Some \<lparr> functionCalls = Some fcs \<rparr> \<rparr>"

text \<open>A run of audio chunks, each handled to its end at its own clock reading.\<close>

fun playChunks ::
  "(string \<Rightarrow> AudioBuffer option) \<Rightarrow> (real \<times> string) list \<Rightarrow> App \<Rightarrow> App" where
  "playChunks dec [] s = s"
| "playChunks dec ((now, d) # cs) s = playChunks dec cs (snd (onmessage dec now (audioMessage d) s))"

definition durations :: "(string \<Rightarrow> AudioBuffer option) \<Rightarrow> (real \<times> string) list \<Rightarrow> real list" where
  "durations dec cs = map (\<lambda>c. duration (the (dec (snd c)))) cs"

text \<open>
  A decoder for the sample inputs: half a second of audio at 24 kHz for each character of
  the payload, and a failure on the payload \<^verbatim>\<open>bad\<close>.
\<close>

definition sampleDecoder :: "string \<Rightarrow> AudioBuffer option" where
  "sampleDecoder d =
     (if d = ''bad'' then None
      else Some \<lparr> buf_sampleRate = 24000, buf_length = 12000 * length d \<rparr>)"

definition sampleEnv :: Env where
  "sampleEnv = \<lparr> API_KEY = Some ''key'', inputContextError = None,
     outputContextError = None, getUserMediaError = None \<rparr>"

text \<open>The component after a successful connect and the \<^verbatim>\<open>opened\<close> event.\<close>

definition liveApp :: App where
  "liveApp = onopen (handleConnect sampleEnv initial)"

text \<open>Function calls for the sample inputs: scenario 3 of the spec, and variations of it.\<close>

definition janeArgs :: args where
  "janeArgs = [''customerName'' \<mapsto> JString ''Jane'', ''address'' \<mapsto> JString ''12 Elm St'',
     ''preferredTime'' \<mapsto> JString ''Friday 3pm'']"

definition janeCall :: FunctionCall where
  "janeCall =
     \<lparr> fc_id = Some ''abc'', fc_name = Some ''book_site_visit'', fc_args = Some janeArgs \<rparr>"

definition noAddressArgs :: args where
  "noAddressArgs =
     [''customerName'' \<mapsto> JString ''Jane'', ''preferredTime'' \<mapsto> JString ''Friday 3pm'']"

definition noAddressCall :: FunctionCall where
  "noAddressCall =
     \<lparr> fc_id = Some ''abd'', fc_name = Some ''book_site_visit'', fc_args = Some noAddressArgs \<rparr>"

definition unknownCall :: FunctionCall where
  "unknownCall =
     \<lparr> fc_id = Some ''x1'', fc_name = Some ''cancel_visit'', fc_args = Some Map.empty \<rparr>"

text \<open>Two chunks scheduled at time 0: one second and half a second of audio.\<close>

definition playing :: App where
  "playing = playChunks sampleDecoder [(0, ''AA''), (0, ''B'')] liveApp"

text \<open>
  A decoder for scenario 1 of the spec: a tenth of a second of audio at 24 kHz for each
  character of the payload.
\<close>

definition scenarioDecoder :: "string \<Rightarrow> AudioBuffer option" where
  "scenarioDecoder d = Some \<lparr> buf_sampleRate = 24000, buf_length = 2400 * length d \<rparr>"


section \<open>Basic facts\<close>

lemma duration_nonneg: "0 \<le> duration b"
  by (simp add: duration_def)

lemma toolResponses_append: "toolResponses (xs @ ys) = toolResponses xs @ toolResponses ys"
  by (induction xs rule: toolResponses.induct) simp_all

lemma scheduled_append: "scheduled (xs @ ys) = scheduled xs @ scheduled ys"
  by (induction xs rule: scheduled.induct) simp_all

lemma liveApp_eq:
  "liveApp =
     \<lparr> connectionState = CONNECTED, isSpeaking = False, lastLog = ''Connected! Say hello.'',
       bookedVisits = [], sessionRef = Some 4, inputAudioContextRef = Some 0,
       outputAudioContextRef = Some 1, outputNodeRef = Some 2, nextStartTimeRef = 0,
       sourcesRef = [], nextHandle = 5,
       effects = [NewAudioContext 0 16000, NewAudioContext 1 24000, CreateGain 2 1,
                  GetUserMedia 3, LiveConnect 4] \<rparr>"
  by (simp add: liveApp_def onopen_def handleConnect_def sampleEnv_def initial_def
      falsy_key_def)

text \<open>A message without audio goes straight to the interruption and tool-call branches.\<close>

lemma onmessage_no_audio:
  assumes "base64Audio m = Inr a" and "\<not> truthy a"
  shows "onmessage dec now m s = afterAudio m s"
  using assms by (simp add: onmessage_def onmessage_begin_def split: prod.splits)

lemma base64Audio_toolCallMessage: "base64Audio (toolCallMessage fcs) = Inr None"
  by (simp add: base64Audio_def toolCallMessage_def)

lemma onmessage_toolCallMessage:
  "onmessage dec now (toolCallMessage fcs) s = handleToolCalls fcs s"
proof -
  have "onmessage dec now (toolCallMessage fcs) s = afterAudio (toolCallMessage fcs) s"
    by (rule onmessage_no_audio [OF base64Audio_toolCallMessage]) (simp add: truthy_def)
  also have "\<dots> = handleToolCalls fcs s"
    by (simp add: afterAudio_def isInterrupted_def toolCallMessage_def)
  finally show ?thesis .
qed

lemma handleToolCalls_frame:
  "nextStartTimeRef (snd (handleToolCalls fcs s)) = nextStartTimeRef s
   \<and> sourcesRef (snd (handleToolCalls fcs s)) = sourcesRef s
   \<and> outputAudioContextRef (snd (handleToolCalls fcs s)) = outputAudioContextRef s
   \<and> outputNodeRef (snd (handleToolCalls fcs s)) = outputNodeRef s
   \<and> scheduled (effects (snd (handleToolCalls fcs s))) = scheduled (effects s)"
proof (induction fcs arbitrary: s)
  case Nil
  then show ?case by simp
next
  case (Cons fc fcs)
  then show ?case by (cases "fc_args fc") (simp_all add: scheduled_append)
qed

lemma scheduled_stops: "scheduled (map SourceStop xs) = []"
  by (induction xs) simp_all

lemma afterAudio_frame:
  "outputAudioContextRef (snd (afterAudio m s)) = outputAudioContextRef s
   \<and> outputNodeRef (snd (afterAudio m s)) = outputNodeRef s
   \<and> scheduled (effects (snd (afterAudio m s))) = scheduled (effects s)"
  by (simp add: afterAudio_def handleInterruption_def handleToolCalls_frame scheduled_append
      scheduled_stops split: option.splits)

lemma afterAudio_cursor:
  "\<not> isInterrupted m \<Longrightarrow> nextStartTimeRef (snd (afterAudio m s)) = nextStartTimeRef s"
  by (simp add: afterAudio_def handleToolCalls_frame split: option.splits)

lemma onmessage_audio:
  assumes "base64Audio m = Inr (Some d)" and "d \<noteq> []"
    and "outputAudioContextRef s \<noteq> None" and "outputNodeRef s \<noteq> None"
  shows "onmessage dec now m s =
    (case dec d of
       None \<Rightarrow> (Some DecodeError, s\<lparr>isSpeaking := True,
                   nextStartTimeRef := max (nextStartTimeRef s) now\<rparr>)
     | Some b \<Rightarrow> afterAudio m (scheduleBuffer b (s\<lparr>isSpeaking := True,
                   nextStartTimeRef := max (nextStartTimeRef s) now\<rparr>)))"
  using assms
  by (simp add: onmessage_def onmessage_begin_def onmessage_resume_def truthy_def
      split: option.splits)

lemma base64Audio_audioMessage: "base64Audio (audioMessage d) = Inr (Some d)"
  by (simp add: base64Audio_def audioMessage_def)

lemma afterAudio_audioMessage: "afterAudio (audioMessage d) s = (None, s)"
  by (simp add: afterAudio_def audioMessage_def isInterrupted_def)

lemma onmessage_audioMessage:
  assumes "d \<noteq> []" and "dec d = Some b"
    and "outputAudioContextRef s \<noteq> None" and "outputNodeRef s \<noteq> None"
  shows "onmessage dec now (audioMessage d) s =
    (None, scheduleBuffer b (s\<lparr>isSpeaking := True,
                   nextStartTimeRef := max (nextStartTimeRef s) now\<rparr>))"
  using onmessage_audio [OF base64Audio_audioMessage assms(1,3,4), of dec now] assms(2)
  by (simp add: afterAudio_audioMessage)

lemma acquires_handleDisconnect:
  "filter acquires (effects (handleDisconnect s)) = filter acquires (effects s)"
  by (simp add: handleDisconnect_def Let_def split: option.splits)

lemmas handler_defs = onmessage_def onmessage_begin_def onmessage_resume_def base64Audio_def
  truthy_def afterAudio_def isInterrupted_def scheduleBuffer_def handleInterruption_def
  duration_def audioMessage_def interruptedMessage_def toolCallMessage_def

lemma playing_eq:
  "playing = liveApp\<lparr>isSpeaking := True, nextStartTimeRef := 3 / 2, sourcesRef := [5, 6],
      nextHandle := 7,
      effects := effects liveApp @
        [SourceStart 5 \<lparr>buf_sampleRate = 24000, buf_length = 24000\<rparr> 0,
         SourceStart 6 \<lparr>buf_sampleRate = 24000, buf_length = 12000\<rparr> 1]\<rparr>"
  by (simp add: playing_def handler_defs sampleDecoder_def liveApp_eq)


section \<open>Tool calls\<close>

text \<open>
  The loop answers the calls named \<^verbatim>\<open>book_site_visit\<close>, in order, and passes over every
  other call; it records the arguments as they come.
\<close>

lemma handleToolCalls_bookings:
  assumes "\<forall>fc\<in>set fcs. fc_name fc = Some ''book_site_visit'' \<longrightarrow> fc_args fc \<noteq> None"
  shows "fst (handleToolCalls fcs s) = None
    \<and> effects (snd (handleToolCalls fcs s)) = effects s @
        map (\<lambda>fc. SendToolResponse (fc_id fc) (fc_name fc) ''Visit successfully scheduled.'')
          (filter (\<lambda>fc. fc_name fc = Some ''book_site_visit'') fcs)
    \<and> bookedVisits (snd (handleToolCalls fcs s)) = bookedVisits s @
        map (\<lambda>fc. the (fc_args fc)) (filter (\<lambda>fc. fc_name fc = Some ''book_site_visit'') fcs)"
  using assms
proof (induction fcs arbitrary: s)
  case Nil
  then show ?case by simp
next
  case (Cons fc fcs)
  then show ?case by (cases "fc_args fc") auto
qed

text \<open>
  Claim C1, as the code has it: for a \<^verbatim>\<open>tool_call\<close> event whose calls named
  \<^verbatim>\<open>book_site_visit\<close> all carry an arguments object, the handler sends exactly one
  response for each call named \<^verbatim>\<open>book_site_visit\<close>, with the id of that call and the
  result of a success, in the order of the calls; a call of any other name gets no
  response.
\<close>

theorem tool_response_per_booking_call:
  assumes "\<forall>fc\<in>set fcs. fc_name fc = Some ''book_site_visit'' \<longrightarrow> fc_args fc \<noteq> None"
  shows "toolResponses (effects (snd (onmessage dec now (toolCallMessage fcs) s))) =
           toolResponses (effects s) @
           map (\<lambda>fc. (fc_id fc, ''Visit successfully scheduled.''))
             (filter (\<lambda>fc. fc_name fc = Some ''book_site_visit'') fcs)"
proof -
  have "toolResponses (map (\<lambda>fc. SendToolResponse (fc_id fc) (fc_name fc) r) xs) =
          map (\<lambda>fc. (fc_id fc, r)) xs" for r and xs :: "FunctionCall list"
    by (induction xs) simp_all
  then show ?thesis
    using handleToolCalls_bookings [OF assms, of s]
    by (simp add: onmessage_toolCallMessage toolResponses_append)
qed

text \<open>
  Claim C1, the amended statement at a message of two calls, the first of an unknown
  name: one response, for the second call.
\<close>

theorem tool_response_per_booking_call_witness:
  "toolResponses (effects (snd
      (onmessage sampleDecoder 0 (toolCallMessage [unknownCall, janeCall]) liveApp)))
     = [(Some ''abc'', ''Visit successfully scheduled.'')]"
  using tool_response_per_booking_call [of "[unknownCall, janeCall]" sampleDecoder 0 liveApp]
  by (simp add: unknownCall_def janeCall_def liveApp_eq)

text \<open>
  Claim C1 as stated fails: the call \<^verbatim>\<open>x1\<close> of the unknown tool \<^verbatim>\<open>cancel_visit\<close>
  receives no response at all.
\<close>

theorem unknown_tool_call_unanswered:
  "fc_id unknownCall = Some ''x1''
   \<and> toolResponses (effects (snd
        (onmessage sampleDecoder 0 (toolCallMessage [unknownCall]) liveApp))) = []"
  by (simp add: onmessage_toolCallMessage unknownCall_def liveApp_eq)

text \<open>
  Claim C2, as the code has it: in a \<^verbatim>\<open>tool_call\<close> event whose calls named
  \<^verbatim>\<open>book_site_visit\<close> all carry an arguments object, every such call is booked whatever
  its fields are: the handler ends without error, the arguments objects of these calls
  are appended to the booking list as they are, in the order of the calls, and for each
  of them a response of success with the id of the call is sent; calls of other names
  append nothing. For an event of one such call the whole state is given: the status line
  reads the customer name off the arguments.
\<close>

theorem booking_without_validation:
  assumes "\<forall>fc\<in>set fcs. fc_name fc = Some ''book_site_visit'' \<longrightarrow> fc_args fc \<noteq> None"
  shows "fst (onmessage dec now (toolCallMessage fcs) s) = None
    \<and> bookedVisits (snd (onmessage dec now (toolCallMessage fcs) s)) = bookedVisits s @
        map (\<lambda>fc. the (fc_args fc)) (filter (\<lambda>fc. fc_name fc = Some ''book_site_visit'') fcs)
    \<and> effects (snd (onmessage dec now (toolCallMessage fcs) s)) = effects s @
        map (\<lambda>fc. SendToolResponse (fc_id fc) (Some ''book_site_visit'')
                    ''Visit successfully scheduled.'')
          (filter (\<lambda>fc. fc_name fc = Some ''book_site_visit'') fcs)
    \<and> onmessage dec now
         (toolCallMessage [\<lparr> fc_id = i, fc_name = Some ''book_site_visit'', fc_args = Some a \<rparr>]) s =
       (None, s\<lparr>lastLog := ''Booking visit for '' @ js_toString (a ''customerName'') @ ''...'',
                bookedVisits := bookedVisits s @ [a],
                effects := effects s @
                  [SendToolResponse i (Some ''book_site_visit'')
                     ''Visit successfully scheduled.'']\<rparr>)"
proof -
  have "map (\<lambda>fc. SendToolResponse (fc_id fc) (fc_name fc) r)
          (filter (\<lambda>fc. fc_name fc = Some n) xs) =
        map (\<lambda>fc. SendToolResponse (fc_id fc) (Some n) r)
          (filter (\<lambda>fc. fc_name fc = Some n) xs)" for r n and xs :: "FunctionCall list"
    by (induction xs) simp_all
  then show ?thesis
    using handleToolCalls_bookings [OF assms, of s]
    by (simp add: onmessage_toolCallMessage)
qed

text \<open>
  Claim C2, as the code has it, at an event of three calls: scenario 3 of the spec, a call
  of an unknown tool, and a booking without an address.
\<close>

theorem booking_without_validation_witness:
  "bookedVisits (snd (onmessage sampleDecoder 0
       (toolCallMessage [janeCall, unknownCall, noAddressCall]) liveApp))
     = [janeArgs, noAddressArgs]
   \<and> effects (snd (onmessage sampleDecoder 0
       (toolCallMessage [janeCall, unknownCall, noAddressCall]) liveApp))
     = effects liveApp @
       [SendToolResponse (Some ''abc'') (Some ''book_site_visit'') ''Visit successfully scheduled.'',
        SendToolResponse (Some ''abd'') (Some ''book_site_visit'') ''Visit successfully scheduled.'']
   \<and> fst (onmessage sampleDecoder 0
       (toolCallMessage [janeCall, unknownCall, noAddressCall]) liveApp) = None"
proof -
  have h: "\<forall>fc\<in>set [janeCall, unknownCall, noAddressCall].
      fc_name fc = Some ''book_site_visit'' \<longrightarrow> fc_args fc \<noteq> None"
    by (simp add: janeCall_def unknownCall_def noAddressCall_def)
  have b: "bookedVisits liveApp = []"
    by (simp add: liveApp_eq)
  show ?thesis
    using booking_without_validation [OF h, of sampleDecoder 0 liveApp] b
    by (simp add: janeCall_def unknownCall_def noAddressCall_def)
qed

text \<open>
  Claim C2 as stated fails: the call \<^verbatim>\<open>abd\<close> has no \<^verbatim>\<open>address\<close>, and yet it is appended
  to the booking list and answered with a success.
\<close>

theorem booking_missing_address:
  "noAddressArgs ''address'' = None
   \<and> bookedVisits (snd (onmessage sampleDecoder 0 (toolCallMessage [noAddressCall]) liveApp))
       = [noAddressArgs]
   \<and> toolResponses (effects (snd
        (onmessage sampleDecoder 0 (toolCallMessage [noAddressCall]) liveApp)))
       = [(Some ''abd'', ''Visit successfully scheduled.'')]"
  by (simp add: onmessage_toolCallMessage noAddressCall_def noAddressArgs_def liveApp_eq)


section \<open>Session lifecycle: teardown and connect\<close>

text \<open>
  Claim C6: \<^verbatim>\<open>handleDisconnect\<close> is idempotent. One invocation leaves the session ref and
  both audio context refs empty and the state DISCONNECTED; on a session that is torn
  down already it closes nothing, and a second invocation changes nothing at all, the
  record of the effects included.
\<close>

theorem handleDisconnect_idempotent:
  "handleDisconnect (handleDisconnect s) = handleDisconnect s
   \<and> sessionRef (handleDisconnect s) = None
   \<and> inputAudioContextRef (handleDisconnect s) = None
   \<and> outputAudioContextRef (handleDisconnect s) = None
   \<and> connectionState (handleDisconnect s) = DISCONNECTED
   \<and> (sessionRef s = None \<and> inputAudioContextRef s = None \<and> outputAudioContextRef s = None
        \<longrightarrow> effects (handleDisconnect s) = effects s)"
  by (simp add: handleDisconnect_def Let_def split: option.splits)

text \<open>
  Claim C6 at the session torn down after a call: the two contexts are closed once, by
  the first teardown, and the second teardown adds nothing.
\<close>

theorem handleDisconnect_idempotent_witness:
  "sessionRef (handleDisconnect liveApp) = None
   \<and> inputAudioContextRef (handleDisconnect liveApp) = None
   \<and> outputAudioContextRef (handleDisconnect liveApp) = None
   \<and> effects (handleDisconnect (handleDisconnect liveApp)) =
       effects liveApp @ [CloseAudioContext 0, CloseAudioContext 1]
   \<and> handleDisconnect (handleDisconnect liveApp) = handleDisconnect liveApp"
proof -
  have "effects (handleDisconnect liveApp) =
          effects liveApp @ [CloseAudioContext 0, CloseAudioContext 1]"
    by (simp add: handleDisconnect_def liveApp_eq)
  then show ?thesis
    using handleDisconnect_idempotent [of liveApp]
      handleDisconnect_idempotent [of "handleDisconnect liveApp"]
    by simp
qed

text \<open>
  Claim C10: with the API key absent (or empty), \<^verbatim>\<open>handleConnect\<close> invoked from
  DISCONNECTED, directly or through \<^verbatim>\<open>toggleConnection\<close>, only alerts: the state stays
  DISCONNECTED, no ref is set, and no audio context, capture stream or channel is
  created.
\<close>

theorem handleConnect_missing_key:
  assumes "falsy_key (API_KEY env)" and "connectionState s = DISCONNECTED"
  shows "handleConnect env s = s\<lparr>effects := effects s @ [Alert ''API Key is missing!'']\<rparr>
    \<and> toggleConnection env s = handleConnect env s
    \<and> connectionState (handleConnect env s) = DISCONNECTED
    \<and> filter acquires (effects (handleConnect env s)) = filter acquires (effects s)"
  using assms by (simp add: handleConnect_def toggleConnection_def)

text \<open>Claim C10 at the initial state of the component, with no key in the environment.\<close>

theorem handleConnect_missing_key_witness:
  "falsy_key (API_KEY (sampleEnv\<lparr>API_KEY := None\<rparr>))
   \<and> connectionState initial = DISCONNECTED
   \<and> handleConnect (sampleEnv\<lparr>API_KEY := None\<rparr>) initial =
       initial\<lparr>effects := [Alert ''API Key is missing!'']\<rparr>
   \<and> connectionState (handleConnect (sampleEnv\<lparr>API_KEY := None\<rparr>) initial) = DISCONNECTED"
proof -
  have k: "falsy_key (API_KEY (sampleEnv\<lparr>API_KEY := None\<rparr>))"
    by (simp add: falsy_key_def)
  have d: "connectionState initial = DISCONNECTED"
    by (simp add: initial_def)
  have e: "effects initial = []"
    by (simp add: initial_def)
  show ?thesis
    using handleConnect_missing_key [OF k d] k d e by simp
qed

text \<open>
  Claim C5, as the code has it: \<^verbatim>\<open>handleConnect\<close> has no guard on the state; the guard
  is in its only caller. \<^verbatim>\<open>toggleConnection\<close> invoked while CONNECTED or CONNECTING
  tears the session down, so that the state becomes DISCONNECTED, and creates no channel,
  audio context or capture stream; it can leave the state at CONNECTING only from
  DISCONNECTED or ERROR.
\<close>

theorem toggleConnection_guards_connect:
  "(connectionState s = CONNECTED \<or> connectionState s = CONNECTING \<longrightarrow>
      connectionState (toggleConnection env s) = DISCONNECTED
      \<and> filter acquires (effects (toggleConnection env s)) = filter acquires (effects s))
   \<and> (connectionState (toggleConnection env s) = CONNECTING \<longrightarrow>
        connectionState s = DISCONNECTED \<or> connectionState s = ERROR)"
proof -
  have "connectionState (handleDisconnect s) = DISCONNECTED"
    by (simp add: handleDisconnect_def Let_def split: option.splits)
  then show ?thesis
    by (cases "connectionState s") (simp_all add: toggleConnection_def acquires_handleDisconnect)
qed

text \<open>
  Claim C5, the amended statement at the live session (torn down, nothing created) and at
  the initial state (which proceeds to CONNECTING).
\<close>

theorem toggleConnection_guards_connect_witness:
  "connectionState liveApp = CONNECTED
   \<and> connectionState (toggleConnection sampleEnv liveApp) = DISCONNECTED
   \<and> filter acquires (effects (toggleConnection sampleEnv liveApp)) =
       [NewAudioContext 0 16000, NewAudioContext 1 24000, GetUserMedia 3, LiveConnect 4]
   \<and> connectionState (toggleConnection sampleEnv initial) = CONNECTING
   \<and> connectionState initial = DISCONNECTED"
proof -
  have c: "connectionState liveApp = CONNECTED"
    by (simp add: liveApp_eq)
  have a: "filter acquires (effects liveApp) =
      [NewAudioContext 0 16000, NewAudioContext 1 24000, GetUserMedia 3, LiveConnect 4]"
    by (simp add: liveApp_eq)
  have d: "connectionState initial = DISCONNECTED"
    by (simp add: initial_def)
  have i: "connectionState (toggleConnection sampleEnv initial) = CONNECTING"
    by (simp add: toggleConnection_def handleConnect_def sampleEnv_def initial_def falsy_key_def)
  show ?thesis
    using toggleConnection_guards_connect [of liveApp sampleEnv]
      toggleConnection_guards_connect [of initial sampleEnv] c a i d
    by simp
qed

text \<open>
  Claim C5 as stated fails: while CONNECTED, the connect control is no rejected no-op (it
  disconnects), and \<^verbatim>\<open>handleConnect\<close> itself goes to CONNECTING and creates two more
  audio contexts, a second capture stream and a second channel.
\<close>

theorem connect_while_connected_not_noop:
  "connectionState liveApp = CONNECTED
   \<and> connectionState (toggleConnection sampleEnv liveApp) = DISCONNECTED
   \<and> connectionState (handleConnect sampleEnv liveApp) = CONNECTING
   \<and> effects (handleConnect sampleEnv liveApp) = effects liveApp @
       [NewAudioContext 5 16000, NewAudioContext 6 24000, CreateGain 7 6,
        GetUserMedia 8, LiveConnect 9]"
  by (simp add: liveApp_eq toggleConnection_def handleDisconnect_def handleConnect_def
      sampleEnv_def falsy_key_def)


section \<open>Interruption\<close>

lemma onmessage_interruption:
  assumes "isInterrupted m" and "base64Audio m = Inr a" and "\<not> truthy a"
    and "toolCall m = None"
  shows "onmessage dec now m s = (None, handleInterruption s)"
  using assms by (simp add: onmessage_no_audio afterAudio_def)

lemma base64Audio_interruptedMessage: "base64Audio interruptedMessage = Inr None"
  by (simp add: base64Audio_def interruptedMessage_def)

text \<open>
  Claim C4, as the code has it: an \<^verbatim>\<open>interrupted\<close> event (a message with the flag, no
  audio and no tool call) processed with any number of buffers in the active set stops
  every one of them, leaves the active set empty, and resets the cursor to 0, not to the
  current time; as the clock is never negative, the next chunk, processed at time \<open>t\<close>,
  starts at \<open>t\<close>.
\<close>

theorem interruption_clears_and_zeroes:
  assumes "isInterrupted m" and "base64Audio m = Inr a" and "\<not> truthy a"
    and "toolCall m = None"
  shows "fst (onmessage dec now m s) = None
    \<and> effects (snd (onmessage dec now m s)) = effects s @ map SourceStop (sourcesRef s)
    \<and> sourcesRef (snd (onmessage dec now m s)) = []
    \<and> nextStartTimeRef (snd (onmessage dec now m s)) = 0
    \<and> (0 \<le> t \<and> d \<noteq> [] \<and> dec d = Some b
         \<and> outputAudioContextRef s \<noteq> None \<and> outputNodeRef s \<noteq> None \<longrightarrow>
        scheduled (effects (snd (onmessage dec t (audioMessage d) (snd (onmessage dec now m s)))))
          = scheduled (effects s) @ [(b, t)])"
proof -
  have i: "onmessage dec now m s = (None, handleInterruption s)"
    by (rule onmessage_interruption [OF assms])
  have "scheduled (effects (snd (onmessage dec t (audioMessage d) (handleInterruption s))))
          = scheduled (effects s) @ [(b, t)]"
    if "0 \<le> t" "d \<noteq> []" "dec d = Some b"
      "outputAudioContextRef s \<noteq> None" "outputNodeRef s \<noteq> None"
  proof -
    have "onmessage dec t (audioMessage d) (handleInterruption s) =
      (None, scheduleBuffer b ((handleInterruption s)\<lparr>isSpeaking := True,
         nextStartTimeRef := max (nextStartTimeRef (handleInterruption s)) t\<rparr>))"
      using that by (intro onmessage_audioMessage) (simp_all add: handleInterruption_def)
    then show ?thesis
      using that(1)
      by (simp add: scheduleBuffer_def Let_def handleInterruption_def scheduled_append
          scheduled_stops)
  qed
  then show ?thesis
    by (simp add: i handleInterruption_def)
qed

text \<open>
  Claim C4, the amended statement with two buffers active, the interruption at time 1 and
  the next chunk at time 5/4.
\<close>

theorem interruption_clears_and_zeroes_witness:
  "sourcesRef playing = [5, 6]
   \<and> effects (snd (onmessage sampleDecoder 1 interruptedMessage playing)) =
       effects playing @ [SourceStop 5, SourceStop 6]
   \<and> sourcesRef (snd (onmessage sampleDecoder 1 interruptedMessage playing)) = []
   \<and> nextStartTimeRef (snd (onmessage sampleDecoder 1 interruptedMessage playing)) = 0
   \<and> scheduled (effects (snd (onmessage sampleDecoder (5 / 4) (audioMessage ''C'')
         (snd (onmessage sampleDecoder 1 interruptedMessage playing)))))
       = scheduled (effects playing) @ [(\<lparr>buf_sampleRate = 24000, buf_length = 12000\<rparr>, 5 / 4)]"
proof -
  have 1: "isInterrupted interruptedMessage"
    by (simp add: isInterrupted_def interruptedMessage_def)
  have 2: "\<not> truthy None"
    by (simp add: truthy_def)
  have 3: "toolCall interruptedMessage = None"
    by (simp add: interruptedMessage_def)
  have 4: "sampleDecoder ''C'' = Some \<lparr>buf_sampleRate = 24000, buf_length = 12000\<rparr>"
    by (simp add: sampleDecoder_def)
  have 5: "sourcesRef playing = [5, 6]" "outputAudioContextRef playing \<noteq> None"
    "outputNodeRef playing \<noteq> None"
    by (simp_all add: playing_eq liveApp_eq)
  show ?thesis
    using interruption_clears_and_zeroes [OF 1 base64Audio_interruptedMessage 2 3,
        of sampleDecoder 1 playing "5 / 4" "''C''" "\<lparr>buf_sampleRate = 24000, buf_length = 12000\<rparr>"]
      4 5
    by simp
qed

text \<open>
  Claim C4 as stated fails: the interruption is processed at time 1 with two buffers
  active and the cursor at 3/2, and the cursor after it is not 1.
\<close>

theorem interruption_cursor_not_now:
  "sourcesRef playing = [5, 6]
   \<and> nextStartTimeRef playing = 3 / 2
   \<and> nextStartTimeRef (snd (onmessage sampleDecoder 1 interruptedMessage playing)) \<noteq> 1"
  by (simp add: playing_eq liveApp_eq handler_defs)


section \<open>Decode failures\<close>

text \<open>
  Claim C7, as the code has it: when the chunk of a message fails to decode (with the
  output context and node in place), the handler ends with the error; nothing is
  scheduled and the cursor stays where the maximum with the clock put it, without any
  duration added; the status line, the connection state and everything else but the
  speaking flag are as before, so the failure is not reported; and the next chunk is
  scheduled as usual, at the maximum of that cursor and its own clock reading.
\<close>

theorem decode_failure_skips_chunk:
  assumes "base64Audio m = Inr (Some d)" and "d \<noteq> []" and "dec d = None"
    and "outputAudioContextRef s \<noteq> None" and "outputNodeRef s \<noteq> None"
  shows "onmessage dec now m s =
           (Some DecodeError,
            s\<lparr>isSpeaking := True, nextStartTimeRef := max (nextStartTimeRef s) now\<rparr>)
    \<and> (d' \<noteq> [] \<and> dec d' = Some b \<longrightarrow>
         effects (snd (onmessage dec now' (audioMessage d') (snd (onmessage dec now m s)))) =
           effects s @ [SourceStart (nextHandle s) b (max (max (nextStartTimeRef s) now) now')])"
proof -
  let ?s = "s\<lparr>isSpeaking := True, nextStartTimeRef := max (nextStartTimeRef s) now\<rparr>"
  have f: "onmessage dec now m s = (Some DecodeError, ?s)"
    using onmessage_audio [OF assms(1,2,4,5), of dec now] assms(3) by simp
  have "effects (snd (onmessage dec now' (audioMessage d') ?s)) =
           effects s @ [SourceStart (nextHandle s) b (max (max (nextStartTimeRef s) now) now')]"
    if "d' \<noteq> []" "dec d' = Some b"
  proof -
    have "onmessage dec now' (audioMessage d') ?s =
      (None, scheduleBuffer b (?s\<lparr>isSpeaking := True,
         nextStartTimeRef := max (nextStartTimeRef ?s) now'\<rparr>))"
      using that assms(4,5) by (intro onmessage_audioMessage) simp_all
    then show ?thesis
      by (simp add: scheduleBuffer_def Let_def)
  qed
  then show ?thesis
    by (simp add: f)
qed

text \<open>
  Claim C7, the amended statement at a chunk that fails at time 2, after the cursor 3/2,
  followed by a good chunk.
\<close>

theorem decode_failure_skips_chunk_witness:
  "onmessage sampleDecoder 2 (audioMessage ''bad'') playing =
     (Some DecodeError, playing\<lparr>isSpeaking := True, nextStartTimeRef := 2\<rparr>)
   \<and> effects (snd (onmessage sampleDecoder 2 (audioMessage ''C'')
        (snd (onmessage sampleDecoder 2 (audioMessage ''bad'') playing)))) =
       effects playing @ [SourceStart 7 \<lparr>buf_sampleRate = 24000, buf_length = 12000\<rparr> 2]"
proof -
  have 1: "''bad'' \<noteq> []" "sampleDecoder ''bad'' = None"
    by (simp_all add: sampleDecoder_def)
  have 2: "outputAudioContextRef playing \<noteq> None" "outputNodeRef playing \<noteq> None"
    by (simp_all add: playing_eq liveApp_eq)
  have 3: "''C'' \<noteq> [] \<and>
      sampleDecoder ''C'' = Some \<lparr>buf_sampleRate = 24000, buf_length = 12000\<rparr>"
    by (simp add: sampleDecoder_def)
  have 4: "nextStartTimeRef playing = 3 / 2" "nextHandle playing = 7"
    by (simp_all add: playing_eq liveApp_eq)
  note t = decode_failure_skips_chunk [where m = "audioMessage ''bad''" and d = "''bad''"
      and dec = sampleDecoder and s = playing and now = 2 and now' = 2 and d' = "''C''"
      and b = "\<lparr>buf_sampleRate = 24000, buf_length = 12000\<rparr>",
      OF base64Audio_audioMessage 1 2]
  show ?thesis
    using t [THEN conjunct1] t [THEN conjunct2, THEN mp, OF 3] by (simp add: 4)
qed

text \<open>
  Claim C7 as stated fails: after the chunk \<^verbatim>\<open>bad\<close> has failed to decode, the status
  line still reads what it read before; the failure is reported nowhere.
\<close>

theorem decode_failure_not_reported:
  "fst (onmessage sampleDecoder 0 (audioMessage ''bad'') liveApp) = Some DecodeError
   \<and> lastLog liveApp = ''Connected! Say hello.''
   \<and> lastLog (snd (onmessage sampleDecoder 0 (audioMessage ''bad'') liveApp)) =
       ''Connected! Say hello.''"
  by (simp add: liveApp_eq handler_defs sampleDecoder_def)


section \<open>The playback cursor\<close>

text \<open>
  Claim C9: no operation but the reset of the interruption branch decreases
  \<^verbatim>\<open>nextStartTimeRef\<close>. A message without the interruption flag never decreases it,
  neither up to the \<^verbatim>\<open>await\<close> nor after it nor as a whole (the maximum with the clock,
  then a duration that is not negative); the other callbacks and the lifecycle operations
  leave it as it is; the interruption branch sets it to 0.
\<close>

theorem cursor_nondecreasing:
  "(\<not> isInterrupted m \<longrightarrow>
      nextStartTimeRef s \<le> nextStartTimeRef (snd (onmessage_begin dec now m s))
      \<and> nextStartTimeRef s \<le> nextStartTimeRef (snd (onmessage_resume m b s))
      \<and> nextStartTimeRef s \<le> nextStartTimeRef (snd (onmessage dec now m s)))
   \<and> nextStartTimeRef s \<le> nextStartTimeRef (scheduleBuffer b s)
   \<and> nextStartTimeRef (snd (handleToolCalls fcs s)) = nextStartTimeRef s
   \<and> nextStartTimeRef (onended src s) = nextStartTimeRef s
   \<and> nextStartTimeRef (handleConnect env s) = nextStartTimeRef s
   \<and> nextStartTimeRef (handleDisconnect s) = nextStartTimeRef s
   \<and> nextStartTimeRef (toggleConnection env s) = nextStartTimeRef s
   \<and> nextStartTimeRef (onopen s) = nextStartTimeRef s
   \<and> nextStartTimeRef (onclose s) = nextStartTimeRef s
   \<and> nextStartTimeRef (onerror s) = nextStartTimeRef s
   \<and> nextStartTimeRef (handleInterruption s) = 0"
proof -
  have sched: "nextStartTimeRef s' \<le> nextStartTimeRef (scheduleBuffer b' s')" for s' b'
    using duration_nonneg [of b'] by (simp add: scheduleBuffer_def Let_def)
  have disc: "nextStartTimeRef (handleDisconnect s') = nextStartTimeRef s'" for s'
    by (simp add: handleDisconnect_def Let_def split: option.splits)
  have conn: "nextStartTimeRef (handleConnect env s) = nextStartTimeRef s"
    by (simp add: handleConnect_def connectFailed_def Let_def split: option.splits)
  have resume: "nextStartTimeRef s' \<le> nextStartTimeRef (snd (onmessage_resume m b' s'))"
    if "\<not> isInterrupted m" for s' b'
    using that sched [of s' b'] by (simp add: onmessage_resume_def afterAudio_cursor)
  have start: "nextStartTimeRef s \<le> nextStartTimeRef (snd (onmessage_begin dec now m s))"
    if "\<not> isInterrupted m"
    using that
    by (simp add: onmessage_begin_def afterAudio_cursor split_beta Let_def
        split: sum.splits option.splits)
  have whole: "nextStartTimeRef s \<le> nextStartTimeRef (snd (onmessage dec now m s))"
    if "\<not> isInterrupted m"
  proof (cases "onmessage_begin dec now m s")
    case (Pair p s')
    with start [OF that] have le: "nextStartTimeRef s \<le> nextStartTimeRef s'"
      by simp
    show ?thesis
    proof (cases p)
      case (Finished e)
      with Pair le show ?thesis by (simp add: onmessage_def)
    next
      case (Awaiting b')
      with Pair le resume [OF that, of s' b'] show ?thesis by (simp add: onmessage_def)
    qed
  qed
  show ?thesis
    using sched [of s b] disc conn resume [of s b] start whole
    by (simp add: handleToolCalls_frame onended_def Let_def toggleConnection_def onopen_def
        onclose_def onerror_def handleInterruption_def)
qed

text \<open>Claim C9 at a chunk that arrives at time 1 while the cursor is at 3/2.\<close>

theorem cursor_nondecreasing_witness:
  "\<not> isInterrupted (audioMessage ''C'')
   \<and> nextStartTimeRef playing = 3 / 2
   \<and> nextStartTimeRef (snd (onmessage sampleDecoder 1 (audioMessage ''C'') playing)) = 2
   \<and> nextStartTimeRef playing
       \<le> nextStartTimeRef (snd (onmessage sampleDecoder 1 (audioMessage ''C'') playing))"
proof -
  have 1: "\<not> isInterrupted (audioMessage ''C'')"
    by (simp add: isInterrupted_def audioMessage_def)
  have 2: "nextStartTimeRef playing = 3 / 2"
    by (simp add: playing_eq)
  have 3: "nextStartTimeRef (snd (onmessage sampleDecoder 1 (audioMessage ''C'') playing)) = 2"
    by (simp add: playing_eq liveApp_eq handler_defs sampleDecoder_def)
  show ?thesis
    using cursor_nondecreasing [of "audioMessage ''C''" playing sampleDecoder 1] 1 2 3
    by simp
qed


section \<open>Gapless scheduling\<close>

text \<open>
  One chunk handled to its end, with the output context and node in place: it starts at
  the maximum of the cursor and the clock, and the cursor ends one duration later.
\<close>

lemma chunk_step:
  assumes "d \<noteq> []" and "dec d = Some b"
    and "outputAudioContextRef s \<noteq> None" and "outputNodeRef s \<noteq> None"
  shows "nextStartTimeRef (snd (onmessage dec now (audioMessage d) s)) =
           max (nextStartTimeRef s) now + duration b"
    and "scheduled (effects (snd (onmessage dec now (audioMessage d) s))) =
           scheduled (effects s) @ [(b, max (nextStartTimeRef s) now)]"
    and "outputAudioContextRef (snd (onmessage dec now (audioMessage d) s)) \<noteq> None"
    and "outputNodeRef (snd (onmessage dec now (audioMessage d) s)) \<noteq> None"
  using assms(3,4)
  by (simp_all add: onmessage_audioMessage [where dec = dec and d = d, OF assms] scheduleBuffer_def Let_def
      scheduled_append)

lemma durations_Cons:
  "durations dec (c # cs) = duration (the (dec (snd c))) # durations dec cs"
  by (simp add: durations_def)

text \<open>
  A run of chunks each of which arrives no later than the cursor stands: every start is
  the cursor of the beginning plus the durations before it.
\<close>

lemma playChunks_on_time:
  assumes "outputAudioContextRef s \<noteq> None" and "outputNodeRef s \<noteq> None"
    and "\<forall>x\<in>set cs. snd x \<noteq> [] \<and> dec (snd x) \<noteq> None"
    and "\<forall>k<length cs. fst (cs ! k) \<le> nextStartTimeRef s + sum_list (take k (durations dec cs))"
  shows "scheduled (effects (playChunks dec cs s)) = scheduled (effects s) @
           map (\<lambda>k. (the (dec (snd (cs ! k))),
                      nextStartTimeRef s + sum_list (take k (durations dec cs))))
             [0..<length cs]
    \<and> nextStartTimeRef (playChunks dec cs s) = nextStartTimeRef s + sum_list (durations dec cs)"
  using assms
proof (induction cs arbitrary: s)
  case Nil
  then show ?case by (simp add: durations_def)
next
  case (Cons c cs)
  obtain now d where c: "c = (now, d)"
    by (cases c)
  from Cons.prems(3) c obtain b where b: "d \<noteq> []" "dec d = Some b"
    by auto
  let ?s = "snd (onmessage dec now (audioMessage d) s)"
  note st = chunk_step [where dec = dec and d = d and now = now, OF b Cons.prems(1,2)]
  from Cons.prems(4) [rule_format, of 0] c have "now \<le> nextStartTimeRef s"
    by simp
  then have m: "max (nextStartTimeRef s) now = nextStartTimeRef s"
    by simp
  have late: "\<forall>k<length cs. fst (cs ! k) \<le> nextStartTimeRef ?s + sum_list (take k (durations dec cs))"
  proof (intro allI impI)
    fix k assume "k < length cs"
    with Cons.prems(4) [rule_format, of "Suc k"] c b
    show "fst (cs ! k) \<le> nextStartTimeRef ?s + sum_list (take k (durations dec cs))"
      by (simp add: st(1) m durations_Cons add.assoc)
  qed
  from Cons.prems(3) have "\<forall>x\<in>set cs. snd x \<noteq> [] \<and> dec (snd x) \<noteq> None"
    by simp
  note ih = Cons.IH [OF st(3) st(4) this late]
  show ?case
    using ih b
    by (simp add: c st(1,2) m durations_Cons map_upt_Suc add.assoc del: upt_Suc)
qed

text \<open>
  Claim C3, as the code has it: for chunks handled in arrival order, one after the other
  and without interruption, with the first start the maximum of the cursor and the clock,
  and provided that no later chunk is handled after the end of the audio scheduled before
  it (the clock reading of chunk \<open>k\<close> is at most the first start plus the durations of
  the chunks before it), the start of chunk \<open>k\<close> is the first start plus the sum of the
  durations of the chunks before it, and the final cursor is the first start plus the sum
  of all durations.
\<close>

theorem gapless_schedule:
  assumes "outputAudioContextRef s \<noteq> None" and "outputNodeRef s \<noteq> None"
    and "\<forall>x\<in>set (c # cs). snd x \<noteq> [] \<and> dec (snd x) \<noteq> None"
    and "\<forall>k. 0 < k \<and> k < length (c # cs) \<longrightarrow>
           fst ((c # cs) ! k) \<le> max (nextStartTimeRef s) (fst c) +
             sum_list (take k (durations dec (c # cs)))"
  shows "scheduled (effects (playChunks dec (c # cs) s)) = scheduled (effects s) @
           map (\<lambda>k. (the (dec (snd ((c # cs) ! k))),
                      max (nextStartTimeRef s) (fst c) +
                        sum_list (take k (durations dec (c # cs)))))
             [0..<length (c # cs)]
    \<and> nextStartTimeRef (playChunks dec (c # cs) s) =
        max (nextStartTimeRef s) (fst c) + sum_list (durations dec (c # cs))"
proof -
  obtain now d where c: "c = (now, d)"
    by (cases c)
  from assms(3) c obtain b where b: "d \<noteq> []" "dec d = Some b"
    by auto
  let ?s = "snd (onmessage dec now (audioMessage d) s)"
  note st = chunk_step [where dec = dec and d = d and now = now, OF b assms(1,2)]
  have late: "\<forall>k<length cs. fst (cs ! k) \<le> nextStartTimeRef ?s + sum_list (take k (durations dec cs))"
  proof (intro allI impI)
    fix k assume "k < length cs"
    with assms(4) [rule_format, of "Suc k"] c b
    show "fst (cs ! k) \<le> nextStartTimeRef ?s + sum_list (take k (durations dec cs))"
      by (simp add: st(1) durations_Cons add.assoc)
  qed
  from assms(3) have "\<forall>x\<in>set cs. snd x \<noteq> [] \<and> dec (snd x) \<noteq> None"
    by simp
  note rest = playChunks_on_time [OF st(3) st(4) this late]
  show ?thesis
    using rest b
    by (simp add: c st(1,2) durations_Cons map_upt_Suc add.assoc del: upt_Suc)
qed

text \<open>
  Claim C3, the amended statement at scenario 1 of the spec: chunks of 0.5 s, 0.3 s and
  0.2 s, handled at times 0, 0.1 and 0.8, start at 0, 0.5 and 0.8, and the cursor ends
  at 1.
\<close>

theorem gapless_schedule_witness:
  "durations scenarioDecoder [(0, ''AAAAA''), (1 / 10, ''BBB''), (4 / 5, ''CC'')] = [1 / 2, 3 / 10, 1 / 5]
   \<and> map snd (scheduled (effects
        (playChunks scenarioDecoder [(0, ''AAAAA''), (1 / 10, ''BBB''), (4 / 5, ''CC'')] liveApp)))
       = [0, 1 / 2, 4 / 5]
   \<and> nextStartTimeRef
        (playChunks scenarioDecoder [(0, ''AAAAA''), (1 / 10, ''BBB''), (4 / 5, ''CC'')] liveApp) = 1"
proof -
  let ?cs = "[(1 / 10, ''BBB''), (4 / 5, ''CC'')] :: (real \<times> string) list"
  have d: "durations scenarioDecoder ((0, ''AAAAA'') # ?cs) = [1 / 2, 3 / 10, 1 / 5]"
    by (simp add: durations_def scenarioDecoder_def duration_def)
  have 1: "outputAudioContextRef liveApp \<noteq> None" "outputNodeRef liveApp \<noteq> None"
    by (simp_all add: liveApp_eq)
  have 2: "\<forall>x\<in>set ((0, ''AAAAA'') # ?cs). snd x \<noteq> [] \<and> scenarioDecoder (snd x) \<noteq> None"
    by (simp add: scenarioDecoder_def)
  have 3: "\<forall>k. 0 < k \<and> k < length ((0, ''AAAAA'') # ?cs) \<longrightarrow>
           fst (((0, ''AAAAA'') # ?cs) ! k) \<le> max (nextStartTimeRef liveApp) (fst (0::real, ''AAAAA'')) +
             sum_list (take k (durations scenarioDecoder ((0, ''AAAAA'') # ?cs)))"
  proof (intro allI impI)
    fix k :: nat assume "0 < k \<and> k < length ((0, ''AAAAA'') # ?cs)"
    then have "k = 1 \<or> k = 2"
      by auto
    then show "fst (((0, ''AAAAA'') # ?cs) ! k) \<le> max (nextStartTimeRef liveApp) (fst (0::real, ''AAAAA'')) +
             sum_list (take k (durations scenarioDecoder ((0, ''AAAAA'') # ?cs)))"
      by (auto simp: d liveApp_eq)
  qed
  have u: "[0..<3] = [0, 1, 2]"
    by (simp add: upt_rec)
  show ?thesis
    using gapless_schedule [OF 1 2 3]
    by (simp add: d liveApp_eq u)
qed

text \<open>
  Claim C3 as stated fails: a chunk of one second starts at 0, the next chunk is handled
  at time 5, and it starts at 5 and not at 1; the final cursor is 11/2 and not 3/2.
\<close>

theorem late_chunk_leaves_gap:
  "durations sampleDecoder [(0, ''AA''), (5, ''B'')] = [1, 1 / 2]
   \<and> map snd (scheduled (effects (playChunks sampleDecoder [(0, ''AA''), (5, ''B'')] liveApp)))
       = [0, 5]
   \<and> nextStartTimeRef (playChunks sampleDecoder [(0, ''AA''), (5, ''B'')] liveApp) = 11 / 2"
  by (simp add: durations_def sampleDecoder_def liveApp_eq handler_defs Let_def)


section \<open>Chunks in flight\<close>

text \<open>
  With the output context and node in place, a handler is suspended exactly when its
  message carries a chunk that decodes; up to there it starts no buffer.
\<close>

lemma onmessage_begin_ready:
  assumes "outputAudioContextRef s \<noteq> None" and "outputNodeRef s \<noteq> None"
  shows "fst (onmessage_begin dec now m s) =
           (case decoded dec m of
              Some b \<Rightarrow> Awaiting b
            | None \<Rightarrow> Finished (fst (onmessage dec now m s)))"
    and "scheduled (effects (snd (onmessage_begin dec now m s))) = scheduled (effects s)"
    and "outputAudioContextRef (snd (onmessage_begin dec now m s)) \<noteq> None"
    and "outputNodeRef (snd (onmessage_begin dec now m s)) \<noteq> None"
  using assms
  by (simp_all add: onmessage_def onmessage_begin_def decoded_def afterAudio_frame split_beta
      Let_def split: sum.splits option.splits)

text \<open>The continuation starts its buffer at the cursor it finds, whatever happened since.\<close>

lemma onmessage_resume_schedules:
  "scheduled (effects (snd (onmessage_resume m b s))) =
     scheduled (effects s) @ [(b, nextStartTimeRef s)]"
  "outputAudioContextRef (snd (onmessage_resume m b s)) = outputAudioContextRef s"
  "outputNodeRef (snd (onmessage_resume m b s)) = outputNodeRef s"
  by (simp_all add: onmessage_resume_def afterAudio_frame scheduleBuffer_def Let_def
      scheduled_append)

text \<open>
  When every decoding that completes is the oldest one waiting, the buffers started,
  followed by the buffers still waiting, are the chunks in the order of their arrival.
\<close>

lemma run_in_arrival_order:
  assumes "outputAudioContextRef s \<noteq> None" and "outputNodeRef s \<noteq> None"
    and "\<forall>ev\<in>set evs. inArrivalOrder ev"
  shows "map fst (scheduled (effects (fst (run dec evs (s, ws))))) @
           map snd (snd (run dec evs (s, ws))) =
         map fst (scheduled (effects s)) @ map snd ws @ arrivals dec evs"
  using assms
proof (induction evs arbitrary: s ws)
  case Nil
  then show ?case by simp
next
  case (Cons ev evs)
  from Cons.prems(3) have rest: "\<forall>ev\<in>set evs. inArrivalOrder ev"
    by simp
  show ?case
  proof (cases ev)
    case (Message now m)
    let ?s = "snd (onmessage_begin dec now m s)"
    note bg = onmessage_begin_ready [OF Cons.prems(1,2), of dec now m]
    show ?thesis
    proof (cases "decoded dec m")
      case None
      with bg(1) have "deliver dec ev (s, ws) = (?s, ws)"
        by (simp add: Message split_beta)
      with Cons.IH [OF bg(3,4) rest, of ws] None show ?thesis
        by (simp add: Message bg(2))
    next
      case (Some b)
      with bg(1) have "deliver dec ev (s, ws) = (?s, ws @ [(m, b)])"
        by (simp add: Message split_beta)
      with Cons.IH [OF bg(3,4) rest, of "ws @ [(m, b)]"] Some show ?thesis
        by (simp add: Message bg(2))
    qed
  next
    case (DecodeDone i)
    with Cons.prems(3) have i: "i = 0"
      by simp
    show ?thesis
    proof (cases "ws = []")
      case True
      with Cons.IH [OF Cons.prems(1,2) rest, of "[]"] show ?thesis
        by (simp add: DecodeDone)
    next
      case False
      then obtain m b ws' where ws: "ws = (m, b) # ws'"
        by (cases ws) auto
      let ?s = "snd (onmessage_resume m b s)"
      have c: "outputAudioContextRef ?s \<noteq> None" "outputNodeRef ?s \<noteq> None"
        using Cons.prems(1,2) by (simp_all add: onmessage_resume_schedules)
      from Cons.IH [OF c rest, of ws'] show ?thesis
        by (simp add: ws i onmessage_resume_schedules(1) DecodeDone)
    qed
  qed
qed

text \<open>
  Claim C8, as the code has it: a chunk whose decoding is in flight is never discarded,
  whatever was observed in between, an interruption included: when its decoding
  completes, its buffer is started at the value the cursor has at that moment. Buffers
  are therefore started in the order in which the decodings complete; this is the order
  of arrival when the decodings complete in the order of arrival.
\<close>

theorem buffers_start_in_completion_order:
  "(i < length ws \<longrightarrow>
      scheduled (effects (fst (deliver dec (DecodeDone i) (s, ws)))) =
        scheduled (effects s) @ [(snd (ws ! i), nextStartTimeRef s)]
      \<and> snd (deliver dec (DecodeDone i) (s, ws)) = take i ws @ drop (Suc i) ws)
   \<and> (outputAudioContextRef s \<noteq> None \<and> outputNodeRef s \<noteq> None
        \<and> (\<forall>ev\<in>set evs. inArrivalOrder ev) \<longrightarrow>
       map fst (scheduled (effects (fst (run dec evs (s, ws))))) @
           map snd (snd (run dec evs (s, ws))) =
         map fst (scheduled (effects s)) @ map snd ws @ arrivals dec evs)"
  using run_in_arrival_order [of s evs dec ws]
  by (simp add: onmessage_resume_schedules(1))

text \<open>
  Claim C8, the amended statement at two chunks whose decodings complete in the order of
  arrival, around an interruption, and at a chunk whose decoding completes after an
  interruption.
\<close>

theorem buffers_start_in_completion_order_witness:
  "map fst (scheduled (effects (fst (run sampleDecoder
       [Message 0 (audioMessage ''AA''), Message 0 (audioMessage ''B''), DecodeDone 0,
        Message 1 interruptedMessage, DecodeDone 0] (liveApp, [])))))
     = [\<lparr>buf_sampleRate = 24000, buf_length = 24000\<rparr>,
        \<lparr>buf_sampleRate = 24000, buf_length = 12000\<rparr>]
   \<and> snd (run sampleDecoder
       [Message 0 (audioMessage ''AA''), Message 0 (audioMessage ''B''), DecodeDone 0,
        Message 1 interruptedMessage, DecodeDone 0] (liveApp, [])) = []
   \<and> scheduled (effects (fst (deliver sampleDecoder (DecodeDone 0)
        (run sampleDecoder [Message 0 (audioMessage ''AA''), Message 1 interruptedMessage]
           (liveApp, [])))))
     = [(\<lparr>buf_sampleRate = 24000, buf_length = 24000\<rparr>, 0)]"
proof -
  let ?evs = "[Message 0 (audioMessage ''AA''), Message 0 (audioMessage ''B''), DecodeDone 0,
        Message 1 interruptedMessage, DecodeDone 0]"
  let ?A = "\<lparr>buf_sampleRate = 24000, buf_length = 24000\<rparr>"
  let ?B = "\<lparr>buf_sampleRate = 24000, buf_length = 12000\<rparr>"
  have 1: "outputAudioContextRef liveApp \<noteq> None \<and> outputNodeRef liveApp \<noteq> None
      \<and> (\<forall>ev\<in>set ?evs. inArrivalOrder ev)"
    by (simp add: liveApp_eq)
  have 2: "arrivals sampleDecoder ?evs = [?A, ?B]"
    by (simp add: decoded_def base64Audio_audioMessage base64Audio_interruptedMessage
        truthy_def sampleDecoder_def)
  have 3: "scheduled (effects liveApp) = []"
    by (simp add: liveApp_eq)
  have 4: "snd (run sampleDecoder ?evs (liveApp, [])) = []"
    by (simp add: liveApp_eq handler_defs Let_def sampleDecoder_def)
  let ?st = "run sampleDecoder [Message 0 (audioMessage ''AA''), Message 1 interruptedMessage]
           (liveApp, [])"
  have 5: "?st = (liveApp\<lparr>isSpeaking := False, lastLog := ''User interrupted model.''\<rparr>,
      [(audioMessage ''AA'', ?A)])"
    by (simp add: liveApp_eq handler_defs Let_def sampleDecoder_def)
  note t = buffers_start_in_completion_order [where dec = sampleDecoder]
  from t [where s = liveApp and ws = "[]" and evs = ?evs, THEN conjunct2, THEN mp, OF 1]
  have a: "map fst (scheduled (effects (fst (run sampleDecoder ?evs (liveApp, []))))) = [?A, ?B]"
    by (simp only: 2 3 4 list.map append_Nil append_Nil2)
  from t [where s = "fst ?st" and ws = "snd ?st" and i = 0, THEN conjunct1]
  have b: "scheduled (effects (fst (deliver sampleDecoder (DecodeDone 0) ?st))) = [(?A, 0)]"
    unfolding 5 by (simp add: liveApp_eq)
  show ?thesis
    using a b 4 by simp
qed

text \<open>
  Claim C8 as stated fails, in both parts: a chunk in flight when the interruption is
  observed is started, at time 0, and is in the active set afterwards; and of two chunks
  whose decodings complete in the other order, the second to arrive is started first.
\<close>

theorem in_flight_chunk_not_discarded:
  "scheduled (effects (fst (run sampleDecoder
       [Message 0 (audioMessage ''AA''), Message 1 interruptedMessage, DecodeDone 0]
       (liveApp, []))))
     = [(\<lparr>buf_sampleRate = 24000, buf_length = 24000\<rparr>, 0)]
   \<and> sourcesRef (fst (run sampleDecoder
       [Message 0 (audioMessage ''AA''), Message 1 interruptedMessage, DecodeDone 0]
       (liveApp, []))) = [5]
   \<and> arrivals sampleDecoder
       [Message 0 (audioMessage ''AA''), Message 0 (audioMessage ''B''),
        DecodeDone 1, DecodeDone 0]
     = [\<lparr>buf_sampleRate = 24000, buf_length = 24000\<rparr>,
        \<lparr>buf_sampleRate = 24000, buf_length = 12000\<rparr>]
   \<and> scheduled (effects (fst (run sampleDecoder
       [Message 0 (audioMessage ''AA''), Message 0 (audioMessage ''B''),
        DecodeDone 1, DecodeDone 0] (liveApp, []))))
     = [(\<lparr>buf_sampleRate = 24000, buf_length = 12000\<rparr>, 0),
        (\<lparr>buf_sampleRate = 24000, buf_length = 24000\<rparr>, 1 / 2)]"
  by (simp add: liveApp_eq handler_defs Let_def sampleDecoder_def decoded_def)

end
